theory Spec2Isabelle
  imports Complex_Main "HOL-Library.Option_ord" "HOL-Library.Sublist"
begin

text \<open>
  The three pieces of logic of the repository, embedded as functions:
  \<^item> \<open>SelectCoregistration._run_interface\<close> of
    \<^verbatim>\<open>macaque_utils/interfaces/select_coreg.py\<close>, which scores candidate alignments against
    a target and selects the best;
  \<^item> \<open>HemisphereMask._run_interface\<close> of \<^verbatim>\<open>macaque_workflows/interfaces/nmt.py\<close>,
    which splits a brain mask into a left and a right mask;
  \<^item> \<open>check_params\<close> of \<^verbatim>\<open>macaque_workflows/utils.py\<close>.

  The file system is a map from paths to file contents, passed in and returned. An
  exception is the \<open>Inl\<close> of a sum. The calls into nibabel, nilearn and numpy are
  functions written after the behaviour of these libraries; the Pearson coefficient and
  the two numeric operations whose values depend on floating point (resampling an image
  to another grid, converting a voxel to float32) are parameters of the embedding.
\<close>

section \<open>Python values shared by the interfaces\<close>

text \<open>
  Exceptions are values. \<open>ValueError\<close> and \<open>KeyError\<close> carry the fixed part of the
  message, which tells the raising library call apart.
\<close>

datatype py_error =
    FileNotFoundError
  | ImageFileError
  | IndexError
  | TypeError
  | TraitError
  | ValueError string
  | KeyError string

type_synonym path = string

text \<open>
  A float64 correlation as \<open>scipy.stats.pearsonr\<close> returns it: a coefficient (clipped by
  scipy to the interval from -1 to 1, hence finite) or nan.
\<close>

datatype score = NaN | R real

text \<open>
  A NIfTI image: the affine (kept abstract) and the voxel array, a 3-D array written as
  nested lists with the first axis outermost. The type of a voxel is a parameter:
  SelectCoregistration reads intensities as reals, HemisphereMask multiplies float64
  values.
\<close>

record ('a, 'v) nifti =
  affine :: 'a
  dataobj :: "'v list list list"

text \<open>What a path of the file system holds: an image, or the rows of a numeric text file.\<close>

datatype ('a, 'v) file_content = Nifti "('a, 'v) nifti" | Text "score list"

type_synonym ('a, 'v) store = "path \<Rightarrow> ('a, 'v) file_content option"

definition ravel :: "'v list list list \<Rightarrow> 'v list" where
  "ravel a = concat (concat a)"

definition map3 :: "('v \<Rightarrow> 'w) \<Rightarrow> 'v list list list \<Rightarrow> 'w list list list" where
  "map3 f a = map (map (map f)) a"

text \<open>\<open>os.path.join(a, b)\<close> for a relative \<open>b\<close>.\<close>

definition path_join :: "path \<Rightarrow> path \<Rightarrow> path" where
  "path_join a b = (if a = [] then b else if last a = CHR ''/'' then a @ b else a @ ''/'' @ b)"

text \<open>\<open>nibabel.load\<close>: the file must exist and be an image.\<close>

definition nib_load :: "('a, 'v) store \<Rightarrow> path \<Rightarrow> py_error + ('a, 'v) nifti" where
  "nib_load fs p =
     (case fs p of
        None \<Rightarrow> Inl FileNotFoundError
      | Some (Text rows) \<Rightarrow> Inl ImageFileError
      | Some (Nifti img) \<Rightarrow> Inr img)"

section \<open>The library calls of SelectCoregistration\<close>

text \<open>
  \<open>nilearn\<close>'s \<open>check_niimg\<close>, which the masker applies to a path it is given: a
  missing file is a \<open>ValueError\<close>, anything else goes to \<open>nibabel.load\<close>. The path is
  read literally: the expansion of a path with glob characters against the directory,
  which nilearn performs, is not part of this function, and nothing below is stated
  about runs on two file systems.
\<close>

definition check_niimg :: "('a, real) store \<Rightarrow> path \<Rightarrow> py_error + ('a, real) nifti" where
  "check_niimg fs p =
     (case fs p of
        None \<Rightarrow> Inl (ValueError ''File not found'')
      | Some f \<Rightarrow> nib_load fs p)"

subsection \<open>nilearn: binarize_img and NiftiMasker\<close>

text \<open>\<open>image.binarize_img(img)\<close> with the default threshold 0: a non-zero voxel becomes 1.\<close>

definition binarize_img :: "('a, real) nifti \<Rightarrow> ('a, real) nifti" where
  "binarize_img img = img\<lparr>dataobj := map3 (\<lambda>v. if v \<noteq> 0 then 1 else 0) (dataobj img)\<rparr>"

text \<open>
  \<open>nilearn.masking.load_mask_img\<close>: the mask must hold one non-zero value, or 0 and one
  other value; \<open>remdups\<close> stands for \<open>np.unique\<close> (only the number of values and the
  presence of 0 are read).
\<close>

definition load_mask_img :: "('a, real) nifti \<Rightarrow> py_error + bool list list list" where
  "load_mask_img mimg =
     (case remdups (ravel (dataobj mimg)) of
        [v] \<Rightarrow>
          if v = 0
          then Inl (ValueError ''The mask is invalid as it is empty'')
          else Inr (map3 (\<lambda>x. x \<noteq> 0) (dataobj mimg))
      | [v, w] \<Rightarrow>
          if v \<noteq> 0 \<and> w \<noteq> 0
          then Inl (ValueError ''Background of the mask must be represented with 0'')
          else Inr (map3 (\<lambda>x. x \<noteq> 0) (dataobj mimg))
      | _ \<Rightarrow> Inl (ValueError ''Given mask is not made of 2 values''))"

text \<open>Same field of view: same affine and same array shape.\<close>

definition check_same_fov :: "('a, real) nifti \<Rightarrow> ('a, real) nifti \<Rightarrow> bool" where
  "check_same_fov a b =
     (affine a = affine b \<and> map (map length) (dataobj a) = map (map length) (dataobj b))"

text \<open>
  The masker built by \<open>NiftiMasker(target_mask)\<close>: \<open>mask_img\<close> is the constructor's
  argument, \<open>fitted_mask_img\<close> the attribute \<^verbatim>\<open>mask_img_\<close> that \<open>fit\<close> sets.
\<close>

record 'a NiftiMasker =
  mask_img :: "('a, real) nifti"
  fitted_mask_img :: "('a, real) nifti option"

definition new_NiftiMasker :: "('a, real) nifti \<Rightarrow> 'a NiftiMasker" where
  "new_NiftiMasker m = \<lparr>mask_img = m, fitted_mask_img = None\<rparr>"

text \<open>With a mask given at construction, \<open>fit\<close> takes that mask whatever the images are.\<close>

definition fit :: "'a NiftiMasker \<Rightarrow> ('a, real) nifti \<Rightarrow> 'a NiftiMasker" where
  "fit masker imgs = masker\<lparr>fitted_mask_img := Some (mask_img masker)\<rparr>"

text \<open>
  \<open>transform\<close>: an image on another grid is resampled to the mask's grid first
  (\<open>resample_img\<close>, an interpolation, is a parameter); then the voxels under the mask are
  read in array order. The values are kept as they are: the masker's conversion of the
  extracted values to a float type is left to the scoring function, which is a parameter
  wherever a score is used.
\<close>

definition transform ::
  "(('a, real) nifti \<Rightarrow> ('a, real) nifti \<Rightarrow> ('a, real) nifti) \<Rightarrow> 'a NiftiMasker \<Rightarrow> ('a, real) nifti \<Rightarrow> py_error + real list"
where
  "transform resample_img masker imgs =
     (case fitted_mask_img masker of
        None \<Rightarrow> Inl (ValueError ''This NiftiMasker instance is not fitted yet'')
      | Some mimg \<Rightarrow>
          let imgs' = (if check_same_fov imgs mimg then imgs else resample_img imgs mimg) in
          (case load_mask_img mimg of
             Inl e \<Rightarrow> Inl e
           | Inr mask_data \<Rightarrow>
               if map (map length) (dataobj imgs') \<noteq> map (map length) mask_data
               then Inl IndexError
               else Inr (map snd (filter fst (zip (ravel mask_data) (ravel (dataobj imgs')))))))"

definition fit_transform ::
  "(('a, real) nifti \<Rightarrow> ('a, real) nifti \<Rightarrow> ('a, real) nifti) \<Rightarrow> 'a NiftiMasker \<Rightarrow> ('a, real) nifti
     \<Rightarrow> py_error + ('a NiftiMasker \<times> real list)"
where
  "fit_transform resample_img masker imgs =
     (let masker' = fit masker imgs in
      case transform resample_img masker' imgs of
        Inl e \<Rightarrow> Inl e
      | Inr vox \<Rightarrow> Inr (masker', vox))"

subsection \<open>numpy: nanargmax and savetxt\<close>

definition isnan :: "score \<Rightarrow> bool" where
  "isnan s = (case s of NaN \<Rightarrow> True | R r \<Rightarrow> False)"

text \<open>
  \<open>nanargmax\<close> replaces every nan by \<open>-inf\<close>, raises when the array is not empty and
  all nan, and takes \<open>argmax\<close>, which raises on the empty array. The filled array is a
  list of \<open>real option\<close>, \<open>None\<close> being \<open>-inf\<close>: the order of \<open>option\<close> puts \<open>None\<close> below
  every \<open>Some\<close>.
\<close>

definition replace_nan :: "score \<Rightarrow> real option" where
  "replace_nan s = (case s of NaN \<Rightarrow> None | R r \<Rightarrow> Some r)"

text \<open>
  The scan of \<open>argmax\<close>: \<open>mp\<close> is the maximum so far, \<open>max_ind\<close> its index, \<open>i\<close> the
  index of the next element; the maximum moves only to an element that is not \<open>\<le> mp\<close>.
\<close>

fun argmax_from :: "real option \<Rightarrow> nat \<Rightarrow> nat \<Rightarrow> real option list \<Rightarrow> nat" where
  "argmax_from mp max_ind i [] = max_ind"
| "argmax_from mp max_ind i (x # xs) =
     (if \<not> x \<le> mp then argmax_from x i (Suc i) xs
      else argmax_from mp max_ind (Suc i) xs)"

definition argmax :: "real option list \<Rightarrow> py_error + nat" where
  "argmax a =
     (case a of
        [] \<Rightarrow> Inl (ValueError ''attempt to get argmax of an empty sequence'')
      | x # xs \<Rightarrow> Inr (argmax_from x 0 1 xs))"

definition nanargmax :: "score list \<Rightarrow> py_error + nat" where
  "nanargmax a =
     (if a \<noteq> [] \<and> list_all isnan a then Inl (ValueError ''All-NaN slice encountered'')
      else argmax (map replace_nan a))"

text \<open>\<open>np.savetxt(out, np.array(correlations))\<close>: one row per value, in order.\<close>

definition savetxt :: "('a, real) store \<Rightarrow> path \<Rightarrow> score list \<Rightarrow> ('a, real) store" where
  "savetxt fs out a = fs(out \<mapsto> Text a)"

text \<open>IEEE comparisons of two scores: false as soon as one side is nan.\<close>

fun score_ge :: "score \<Rightarrow> score \<Rightarrow> bool" where
  "score_ge (R a) (R b) = (a \<ge> b)"
| "score_ge _ _ = False"

fun score_lt :: "score \<Rightarrow> score \<Rightarrow> bool" where
  "score_lt (R a) (R b) = (a < b)"
| "score_lt _ _ = False"

section \<open>SelectCoregistration\<close>

record SelectCoregistration_inputs =
  target :: path
  sources :: "path list"
  output_list :: bool

text \<open>\<open>source_index\<close> is a bare index, or a list when \<open>output_list\<close> is set.\<close>

datatype py_index = IndexInt nat | IndexList "nat list"

record SelectCoregistration_results =
  source_index :: py_index
  correlations :: path

text \<open>
  The loop over the sources (lines 43 to 47). \<open>pearsonr\<close> is a parameter: it stands for
  the coefficient of \<open>scipy.stats.pearsonr\<close>, with its own errors. A source is a path,
  which the masker loads. The masker is threaded through the iterations, as the loop
  calls \<open>fit_transform\<close> on the one masker object.
\<close>

fun sources_loop ::
  "(real list \<Rightarrow> real list \<Rightarrow> py_error + score) \<Rightarrow> (('a, real) nifti \<Rightarrow> ('a, real) nifti \<Rightarrow> ('a, real) nifti)
     \<Rightarrow> ('a, real) store \<Rightarrow> real list \<Rightarrow> 'a NiftiMasker \<Rightarrow> score list \<Rightarrow> path list
     \<Rightarrow> py_error + ('a NiftiMasker \<times> score list)"
where
  "sources_loop pearsonr resample_img fs target_vox masker corrs [] = Inr (masker, corrs)"
| "sources_loop pearsonr resample_img fs target_vox masker corrs (src # rest) =
     (case check_niimg fs src of
        Inl e \<Rightarrow> Inl e
      | Inr img \<Rightarrow>
          (case fit_transform resample_img masker img of
             Inl e \<Rightarrow> Inl e
           | Inr (masker', src_vox) \<Rightarrow>
               (case pearsonr target_vox src_vox of
                  Inl e \<Rightarrow> Inl e
                | Inr r \<Rightarrow>
                    sources_loop pearsonr resample_img fs target_vox masker'
                      (corrs @ [r]) rest)))"

text \<open>
  Lines 37 to 47: the score vector \<open>correlations\<close>, or the first exception. The trait of
  \<open>sources\<close> reads an empty list as undefined, and the loop over an undefined value
  raises \<open>TypeError\<close> at line 44.
\<close>

definition compute_correlations ::
  "(real list \<Rightarrow> real list \<Rightarrow> py_error + score) \<Rightarrow> (('a, real) nifti \<Rightarrow> ('a, real) nifti \<Rightarrow> ('a, real) nifti)
     \<Rightarrow> ('a, real) store \<Rightarrow> SelectCoregistration_inputs \<Rightarrow> py_error + score list"
where
  "compute_correlations pearsonr resample_img fs inputs =
     (case nib_load fs (target inputs) of
        Inl e \<Rightarrow> Inl e
      | Inr target_img \<Rightarrow>
          let target_mask = binarize_img target_img;
              masker = new_NiftiMasker target_mask
          in (case fit_transform resample_img masker target_img of
                Inl e \<Rightarrow> Inl e
              | Inr (masker', target_vox) \<Rightarrow>
                  if sources inputs = [] then Inl TypeError
                  else
                    (case sources_loop pearsonr resample_img fs target_vox masker' []
                            (sources inputs) of
                       Inl e \<Rightarrow> Inl e
                     | Inr (masker'', corrs) \<Rightarrow> Inr corrs)))"

text \<open>
  \<open>_run_interface\<close> of SelectCoregistration, in the working directory \<open>cwd\<close>: the file
  system after the call, and the \<open>_results\<close> or the exception. An exception leaves the
  file system as it was: the only write, \<open>savetxt\<close>, comes after every call that can
  raise.
\<close>

definition run_interface ::
  "(real list \<Rightarrow> real list \<Rightarrow> py_error + score) \<Rightarrow> (('a, real) nifti \<Rightarrow> ('a, real) nifti \<Rightarrow> ('a, real) nifti)
     \<Rightarrow> ('a, real) store \<Rightarrow> path \<Rightarrow> SelectCoregistration_inputs
     \<Rightarrow> ('a, real) store \<times> (py_error + SelectCoregistration_results)"
where
  "run_interface pearsonr resample_img fs cwd inputs =
     (case compute_correlations pearsonr resample_img fs inputs of
        Inl e \<Rightarrow> (fs, Inl e)
      | Inr corrs \<Rightarrow>
          (case nanargmax corrs of
             Inl e \<Rightarrow> (fs, Inl e)
           | Inr idx \<Rightarrow>
               let idx' = (if output_list inputs then IndexList [idx] else IndexInt idx);
                   out = path_join cwd ''corrs.csv''
               in (savetxt fs out corrs, Inr \<lparr>source_index = idx', correlations = out\<rparr>)))"

text \<open>
  The output spec (lines 25 to 27) declares \<open>source_index = traits.Int()\<close> and
  \<open>correlations = File()\<close>. After \<open>_run_interface\<close>, the interface's \<open>run\<close> sets every
  entry of \<open>_results\<close> on the output spec, and the \<open>Int\<close> trait refuses a list with
  \<open>TraitError\<close>.
\<close>

record SelectCoregistration_outputs =
  out_source_index :: nat
  out_correlations :: path

definition aggregate_outputs ::
  "SelectCoregistration_results \<Rightarrow> py_error + SelectCoregistration_outputs"
where
  "aggregate_outputs results =
     (case source_index results of
        IndexInt i \<Rightarrow> Inr \<lparr>out_source_index = i, out_correlations = correlations results\<rparr>
      | IndexList l \<Rightarrow> Inl TraitError)"

text \<open>
  \<open>run\<close> of SelectCoregistration: \<open>_run_interface\<close>, then the outputs. The score file
  written by \<open>_run_interface\<close> stays when the outputs are refused.
\<close>

definition SelectCoregistration_run ::
  "(real list \<Rightarrow> real list \<Rightarrow> py_error + score) \<Rightarrow> (('a, real) nifti \<Rightarrow> ('a, real) nifti \<Rightarrow> ('a, real) nifti)
     \<Rightarrow> ('a, real) store \<Rightarrow> path \<Rightarrow> SelectCoregistration_inputs
     \<Rightarrow> ('a, real) store \<times> (py_error + SelectCoregistration_outputs)"
where
  "SelectCoregistration_run pearsonr resample_img fs cwd inputs =
     (case run_interface pearsonr resample_img fs cwd inputs of
        (fs', Inl e) \<Rightarrow> (fs', Inl e)
      | (fs', Inr results) \<Rightarrow> (fs', aggregate_outputs results))"

text \<open>
  The score of one candidate as the specification words it: the mask is derived and
  fitted once, on the target, and the same extraction is applied to the candidate. It is
  compared below with the entries that the loop produces.
\<close>

definition candidate_score ::
  "(real list \<Rightarrow> real list \<Rightarrow> py_error + score) \<Rightarrow> (('a, real) nifti \<Rightarrow> ('a, real) nifti \<Rightarrow> ('a, real) nifti)
     \<Rightarrow> ('a, real) store \<Rightarrow> path \<Rightarrow> path \<Rightarrow> py_error + score"
where
  "candidate_score pearsonr resample_img fs target_path src =
     (case nib_load fs target_path of
        Inl e \<Rightarrow> Inl e
      | Inr target_img \<Rightarrow>
          let masker = fit (new_NiftiMasker (binarize_img target_img)) target_img in
          (case transform resample_img masker target_img of
             Inl e \<Rightarrow> Inl e
           | Inr target_vox \<Rightarrow>
               (case check_niimg fs src of
                  Inl e \<Rightarrow> Inl e
                | Inr img \<Rightarrow>
                    (case transform resample_img masker img of
                       Inl e \<Rightarrow> Inl e
                     | Inr src_vox \<Rightarrow> pearsonr target_vox src_vox))))"

section \<open>HemisphereMask\<close>

text \<open>\<open>os.path.basename\<close>: what follows the last slash.\<close>

definition basename :: "path \<Rightarrow> path" where
  "basename p = rev (takeWhile (\<lambda>c. c \<noteq> CHR ''/'') (rev p))"

text \<open>
  \<open>str.replace(old, new)\<close>: every occurrence of \<open>old\<close>, left to right, without overlap.
  \<open>replace_scan\<close> is the scan for a non-empty \<open>old\<close>.
\<close>

fun replace_scan :: "string \<Rightarrow> string \<Rightarrow> string \<Rightarrow> string" where
  "replace_scan old new [] = []"
| "replace_scan old new (c # cs) =
     (if prefix old (c # cs) then new @ replace_scan old new (drop (length old - 1) cs)
      else c # replace_scan old new cs)"

definition str_replace :: "string \<Rightarrow> string \<Rightarrow> string \<Rightarrow> string" where
  "str_replace s old new =
     (if old = [] then new @ concat (map (\<lambda>c. c # new) s) else replace_scan old new s)"

text \<open>
  A float64 voxel, as \<open>get_fdata\<close> returns it: a number, an infinity or nan. \<open>fmul\<close> is
  the product of two float64 values, rounding and the sign of zero aside: an infinity
  times zero is nan, and nan times anything is nan.
\<close>

datatype float64 = Float real | PlusInf | MinusInf | NotANumber

definition inf_of_sign :: "real \<Rightarrow> float64" where
  "inf_of_sign s = (if s = 0 then NotANumber else if 0 < s then PlusInf else MinusInf)"

fun fmul :: "float64 \<Rightarrow> float64 \<Rightarrow> float64" where
  "fmul (Float a) (Float b) = Float (a * b)"
| "fmul (Float a) PlusInf = inf_of_sign a"
| "fmul (Float a) MinusInf = inf_of_sign (- a)"
| "fmul PlusInf (Float b) = inf_of_sign b"
| "fmul MinusInf (Float b) = inf_of_sign (- b)"
| "fmul PlusInf PlusInf = PlusInf"
| "fmul MinusInf MinusInf = PlusInf"
| "fmul PlusInf MinusInf = MinusInf"
| "fmul MinusInf PlusInf = MinusInf"
| "fmul NotANumber b = NotANumber"
| "fmul a NotANumber = NotANumber"

text \<open>\<open>a[:n, :, :] *= k\<close> and \<open>a[n:, :, :] *= k\<close> on a copy of the array.\<close>

definition mul_upto ::
  "nat \<Rightarrow> float64 \<Rightarrow> float64 list list list \<Rightarrow> float64 list list list"
where
  "mul_upto n k a = map3 (\<lambda>v. fmul v k) (take n a) @ drop n a"

definition mul_from ::
  "nat \<Rightarrow> float64 \<Rightarrow> float64 list list list \<Rightarrow> float64 list list list"
where
  "mul_from n k a = take n a @ map3 (\<lambda>v. fmul v k) (drop n a)"

text \<open>
  One turn of the loop over the two masks: build the image with the input's affine,
  name the output after the input, record it in \<open>_results\<close> (a dictionary) and write it.
  \<open>astype_float32\<close>, the conversion of a voxel to float32, is a parameter.
\<close>

definition write_mask ::
  "(float64 \<Rightarrow> float64) \<Rightarrow> 'a \<Rightarrow> path \<Rightarrow> path \<Rightarrow> float64 list list list \<times> string
     \<Rightarrow> ('a, float64) store \<times> (string \<rightharpoonup> path)
     \<Rightarrow> ('a, float64) store \<times> (string \<rightharpoonup> path)"
where
  "write_mask astype_float32 aff cwd bname m_name st =
     (case m_name of (m, name) \<Rightarrow>
      case st of (fs, results) \<Rightarrow>
        let img = \<lparr>affine = aff, dataobj = map3 astype_float32 m\<rparr>;
            out = path_join cwd (str_replace bname ''.nii.gz'' (''_'' @ name @ ''.nii.gz''))
        in (fs(out \<mapsto> Nifti img), results(name @ ''_mask'' \<mapsto> out)))"

text \<open>
  \<open>_run_interface\<close> of HemisphereMask: the file system after the call, and the
  \<open>_results\<close> dictionary or the exception of the load.
\<close>

definition HemisphereMask_run_interface ::
  "(float64 \<Rightarrow> float64) \<Rightarrow> ('a, float64) store \<Rightarrow> path \<Rightarrow> path
     \<Rightarrow> ('a, float64) store \<times> (py_error + (string \<rightharpoonup> path))"
where
  "HemisphereMask_run_interface astype_float32 fs cwd brain_mask =
     (case nib_load fs brain_mask of
        Inl e \<Rightarrow> (fs, Inl e)
      | Inr mask_image \<Rightarrow>
          let mask_arr = dataobj mask_image;
              midpoint = 64;
              right_mask = mul_upto midpoint (Float 0) mask_arr;
              left_mask = mul_from midpoint (Float 0) mask_arr;
              bname = basename brain_mask;
              st = foldl (\<lambda>st m_name. write_mask astype_float32 (affine mask_image) cwd bname m_name st)
                     (fs, Map.empty) [(right_mask, ''right''), (left_mask, ''left'')]
          in (fst st, Inr (snd st)))"

section \<open>check_params\<close>

text \<open>
  \<open>params\<close> is a dictionary, or the path of a JSON file. A dictionary is a map from keys
  to values. \<open>json_load\<close>, a parameter, stands for opening the file and parsing it.
\<close>

datatype ('k, 'v) params = ParamsFile path | ParamsDict "'k \<rightharpoonup> 'v"

definition check_params ::
  "(path \<Rightarrow> py_error + ('k \<rightharpoonup> 'v)) \<Rightarrow> ('k, 'v) params \<Rightarrow> 'k set \<Rightarrow> py_error + ('k \<rightharpoonup> 'v)"
where
  "check_params json_load params required =
     (case (case params of ParamsDict d \<Rightarrow> Inr d | ParamsFile p \<Rightarrow> json_load p) of
        Inl e \<Rightarrow> Inl e
      | Inr d \<Rightarrow>
          if \<not> required \<subseteq> dom d then Inl (KeyError ''Parameters must have keys'')
          else Inr d)"

section \<open>A small file system for the closed examples\<close>

text \<open>
  \<open>scipy.stats.pearsonr\<close> in exact real arithmetic, the scoring function of the
  examples: the two length checks, nan for a constant vector, the product of the signs
  of the two differences for vectors of length 2, and otherwise the dot product of the
  two centred and normalised vectors, clipped to the interval from -1 to 1. The theorems
  below hold for any scoring function.
\<close>

definition mean :: "real list \<Rightarrow> real" where
  "mean x = sum_list x / real (length x)"

definition norm2 :: "real list \<Rightarrow> real" where
  "norm2 x = sqrt (sum_list (map (\<lambda>v. v * v) x))"

definition pearsonr_exact :: "real list \<Rightarrow> real list \<Rightarrow> py_error + score" where
  "pearsonr_exact x y =
     (let n = length x in
      if n \<noteq> length y then Inl (ValueError ''x and y must have the same length.'')
      else if n < 2 then Inl (ValueError ''x and y must have length at least 2.'')
      else if list_all (\<lambda>v. v = x ! 0) x \<or> list_all (\<lambda>v. v = y ! 0) y then Inr NaN
      else if n = 2 then Inr (R (sgn (x ! 1 - x ! 0) * sgn (y ! 1 - y ! 0)))
      else
        let xm = map (\<lambda>v. v - mean x) x;
            ym = map (\<lambda>v. v - mean y) y;
            r = sum_list (map2 (\<lambda>a b. (a / norm2 xm) * (b / norm2 ym)) xm ym)
        in Inr (R (max (min r 1) (- 1))))"

definition no_resample :: "(unit, real) nifti \<Rightarrow> (unit, real) nifti \<Rightarrow> (unit, real) nifti" where
  "no_resample img mimg = img"

definition vol :: "real \<Rightarrow> real \<Rightarrow> (unit, real) file_content" where
  "vol a b = Nifti \<lparr>affine = (), dataobj = [[[a, b]]]\<rparr>"

definition demo_fs :: "(unit, real) store" where
  "demo_fs =
     [''target.nii.gz'' \<mapsto> vol 1 2, ''same.nii.gz'' \<mapsto> vol 1 2, ''flip.nii.gz'' \<mapsto> vol 2 1,
      ''flat.nii.gz'' \<mapsto> vol 3 3, ''zeros.nii.gz'' \<mapsto> vol 0 0]"

text \<open>
  The conversion to float32 on values that float32 represents exactly, as the 0 and 1 of
  the examples are: it changes nothing.
\<close>

definition exact_cast :: "float64 \<Rightarrow> float64" where
  "exact_cast v = v"

text \<open>
  A brain mask of 65 slabs of one voxel each, all 1, stored under a name that ends in
  \<open>.nii.gz\<close> and under one that ends in \<open>.nii\<close>; \<open>right65\<close> and \<open>left65\<close> are that
  mask with the slabs below 64, and the slab 64, set to zero.
\<close>

definition brain65 :: "(unit, float64) nifti" where
  "brain65 = \<lparr>affine = (), dataobj = replicate 65 [[Float 1]]\<rparr>"

definition right65 :: "(unit, float64) nifti" where
  "right65 = \<lparr>affine = (), dataobj = replicate 64 [[Float 0]] @ [[[Float 1]]]\<rparr>"

definition left65 :: "(unit, float64) nifti" where
  "left65 = \<lparr>affine = (), dataobj = replicate 64 [[Float 1]] @ [[[Float 0]]]\<rparr>"

definition mask_fs :: "(unit, float64) store" where
  "mask_fs = [''/nmt/brainmask.nii.gz'' \<mapsto> Nifti brain65, ''/nmt/brainmask.nii'' \<mapsto> Nifti brain65]"

section \<open>numpy's argmax returns the first maximum\<close>

lemma argmax_from_scan:
  assumes "max_ind < length pre" and "mp = pre ! max_ind"
    and "\<forall>j<length pre. pre ! j \<le> mp" and "\<forall>j<max_ind. pre ! j < mp"
    and "i = length pre"
  shows "argmax_from mp max_ind i xs < length (pre @ xs)
       \<and> (\<forall>j<length (pre @ xs). (pre @ xs) ! j \<le> (pre @ xs) ! argmax_from mp max_ind i xs)
       \<and> (\<forall>j<argmax_from mp max_ind i xs. (pre @ xs) ! j < (pre @ xs) ! argmax_from mp max_ind i xs)"
  using assms
proof (induction xs arbitrary: pre mp max_ind i)
  case Nil
  then show ?case by simp
next
  case (Cons x xs)
  let ?pre = "pre @ [x]"
  show ?case
  proof (cases "x \<le> mp")
    case True
    have a: "max_ind < length ?pre" using Cons.prems by simp
    have b: "mp = ?pre ! max_ind" using Cons.prems by (simp add: nth_append)
    have c: "\<forall>j<length ?pre. ?pre ! j \<le> mp"
      using Cons.prems True by (auto simp: nth_append less_Suc_eq)
    have d: "\<forall>j<max_ind. ?pre ! j < mp" using Cons.prems by (auto simp: nth_append)
    have e: "Suc i = length ?pre" using Cons.prems by simp
    from Cons.IH [OF a b c d e] True show ?thesis by simp
  next
    case False
    then have lt: "mp < x" by simp
    have a: "i < length ?pre" using Cons.prems by simp
    have b: "x = ?pre ! i" using Cons.prems by (simp add: nth_append)
    have c: "\<forall>j<length ?pre. ?pre ! j \<le> x"
      using Cons.prems lt by (auto simp: nth_append less_Suc_eq intro: order.trans less_imp_le)
    have d: "\<forall>j<i. ?pre ! j < x"
      using Cons.prems lt by (auto simp: nth_append intro: le_less_trans)
    have e: "Suc i = length ?pre" using Cons.prems by simp
    from Cons.IH [OF a b c d e] False show ?thesis by simp
  qed
qed

lemma argmax_first_max:
  assumes "argmax a = Inr k"
  shows "k < length a \<and> (\<forall>j<length a. a ! j \<le> a ! k) \<and> (\<forall>j<k. a ! j < a ! k)"
proof (cases a)
  case Nil
  with assms show ?thesis by (simp add: argmax_def)
next
  case (Cons x xs)
  with assms have k: "k = argmax_from x 0 1 xs" by (simp add: argmax_def)
  have "argmax_from x 0 1 xs < length ([x] @ xs)
       \<and> (\<forall>j<length ([x] @ xs). ([x] @ xs) ! j \<le> ([x] @ xs) ! argmax_from x 0 1 xs)
       \<and> (\<forall>j<argmax_from x 0 1 xs. ([x] @ xs) ! j < ([x] @ xs) ! argmax_from x 0 1 xs)"
    by (rule argmax_from_scan) simp_all
  with k Cons show ?thesis by simp
qed

lemma nanargmax_total:
  assumes "\<not> list_all isnan a"
  shows "\<exists>k. nanargmax a = Inr k"
proof -
  from assms have "a \<noteq> []" by auto
  then obtain x xs where "a = x # xs" by (cases a) auto
  with assms show ?thesis by (simp add: nanargmax_def argmax_def)
qed

lemma replace_nan_le: "replace_nan s \<le> replace_nan (R r) \<Longrightarrow> \<not> isnan s \<Longrightarrow> score_ge (R r) s"
  by (cases s) (simp_all add: replace_nan_def isnan_def)

lemma replace_nan_less: "replace_nan s < replace_nan (R r) \<Longrightarrow> isnan s \<or> score_lt s (R r)"
  by (cases s) (simp_all add: replace_nan_def isnan_def)

lemma nanargmax_first_max:
  assumes "nanargmax a = Inr k"
  shows "k < length a \<and> \<not> isnan (a ! k)
       \<and> (\<forall>j<length a. \<not> isnan (a ! j) \<longrightarrow> score_ge (a ! k) (a ! j))
       \<and> (\<forall>j<k. isnan (a ! j) \<or> score_lt (a ! j) (a ! k))"
proof -
  from assms have am: "argmax (map replace_nan a) = Inr k"
    by (auto simp: nanargmax_def split: if_splits)
  then have "a \<noteq> []" by (auto simp: argmax_def)
  with assms have nn: "\<not> list_all isnan a"
    by (auto simp: nanargmax_def split: if_splits)
  from argmax_first_max [OF am]
  have k: "k < length a"
    and mx: "\<forall>j<length a. replace_nan (a ! j) \<le> replace_nan (a ! k)"
    and fst: "\<forall>j<k. replace_nan (a ! j) < replace_nan (a ! k)"
    by auto
  from nn obtain m where m: "m < length a" "\<not> isnan (a ! m)"
    by (auto simp: list_all_length)
  then obtain r where r: "a ! m = R r" by (cases "a ! m") (auto simp: isnan_def)
  from mx m r have "Some r \<le> replace_nan (a ! k)" by (auto simp: replace_nan_def)
  then obtain q where q: "a ! k = R q"
    by (cases "a ! k") (auto simp: replace_nan_def)
  show ?thesis
    using k q mx fst replace_nan_le [of _ q] replace_nan_less [of _ q]
    by (auto simp: isnan_def)
qed


subsection \<open>The run, once the score vector is known\<close>

lemma run_interface_selected:
  assumes "compute_correlations pearsonr resample_img fs inputs = Inr cs"
    and "nanargmax cs = Inr i"
  shows "run_interface pearsonr resample_img fs cwd inputs =
           (savetxt fs (path_join cwd ''corrs.csv'') cs,
            Inr \<lparr>source_index = (if output_list inputs then IndexList [i] else IndexInt i),
                 correlations = path_join cwd ''corrs.csv''\<rparr>)"
  using assms by (simp add: run_interface_def Let_def)

lemma not_all_nan: "j < length cs \<Longrightarrow> \<not> isnan (cs ! j) \<Longrightarrow> \<not> list_all isnan cs"
  by (auto simp: list_all_length)

subsection \<open>Closed evaluations on the small file system\<close>

lemma demo_load:
  "nib_load demo_fs ''target.nii.gz'' = Inr \<lparr>affine = (), dataobj = [[[1, 2]]]\<rparr>"
  "nib_load demo_fs ''zeros.nii.gz'' = Inr \<lparr>affine = (), dataobj = [[[0, 0]]]\<rparr>"
  "check_niimg demo_fs ''same.nii.gz'' = Inr \<lparr>affine = (), dataobj = [[[1, 2]]]\<rparr>"
  "check_niimg demo_fs ''flip.nii.gz'' = Inr \<lparr>affine = (), dataobj = [[[2, 1]]]\<rparr>"
  "check_niimg demo_fs ''flat.nii.gz'' = Inr \<lparr>affine = (), dataobj = [[[3, 3]]]\<rparr>"
  "check_niimg demo_fs ''missing.nii.gz'' = Inl (ValueError ''File not found'')"
  by (simp_all add: check_niimg_def nib_load_def demo_fs_def vol_def)

lemmas demo_eval = compute_correlations_def fit_transform_def fit_def transform_def
  new_NiftiMasker_def binarize_img_def load_mask_img_def check_same_fov_def map3_def ravel_def
  pearsonr_exact_def no_resample_def demo_load

lemma demo_mixed:
  "compute_correlations pearsonr_exact no_resample demo_fs
     \<lparr>target = ''target.nii.gz'',
      sources = [''flip.nii.gz'', ''same.nii.gz'', ''flat.nii.gz'', ''same.nii.gz''],
      output_list = b\<rparr> = Inr [R (- 1), R 1, NaN, R 1]"
  by (simp add: demo_eval)

lemma demo_twins:
  "compute_correlations pearsonr_exact no_resample demo_fs
     \<lparr>target = ''target.nii.gz'', sources = [''same.nii.gz'', ''same.nii.gz''],
      output_list = b\<rparr> = Inr [R 1, R 1]"
  by (simp add: demo_eval)

lemma demo_flat:
  "compute_correlations pearsonr_exact no_resample demo_fs
     \<lparr>target = ''target.nii.gz'', sources = [''flat.nii.gz'', ''flat.nii.gz''],
      output_list = b\<rparr> = Inr [NaN, NaN]"
  by (simp add: demo_eval)

lemma demo_fs_no_scores: "demo_fs ''/work/corrs.csv'' = None"
  by (simp add: demo_fs_def)

section \<open>The masker and the loop over the sources\<close>

lemma fit_fit: "fit (fit m a) b = fit m a"
  by (simp add: fit_def)

lemma fit_transform_Inr:
  "fit_transform resample_img m img = Inr (m', v)
     \<longleftrightarrow> m' = fit m img \<and> transform resample_img (fit m img) img = Inr v"
  by (auto simp: fit_transform_def Let_def split: sum.splits)

lemma sources_loop_length:
  "sources_loop pearsonr resample_img fs tv m acc srcs = Inr (m', cs)
     \<Longrightarrow> length cs = length acc + length srcs"
proof (induction srcs arbitrary: m acc)
  case Nil
  then show ?case by simp
next
  case (Cons src rest)
  from Cons.prems obtain m1 r
    where "sources_loop pearsonr resample_img fs tv m1 (acc @ [r]) rest = Inr (m', cs)"
    by (auto split: sum.splits prod.splits)
  from Cons.IH [OF this] show ?case by simp
qed

lemma sources_loop_scores:
  assumes "\<And>img. fit m img = m"
    and "sources_loop pearsonr resample_img fs tv m acc srcs = Inr (m', cs)"
  shows "take (length acc) cs = acc
       \<and> (\<forall>i<length srcs. \<exists>img vox. check_niimg fs (srcs ! i) = Inr img
              \<and> transform resample_img m img = Inr vox
              \<and> pearsonr tv vox = Inr (cs ! (length acc + i)))"
  using assms(2)
proof (induction srcs arbitrary: acc)
  case Nil
  then show ?case by simp
next
  case (Cons src rest)
  from Cons.prems obtain img m1 vox r
    where ld: "check_niimg fs src = Inr img"
      and ft: "fit_transform resample_img m img = Inr (m1, vox)"
      and pr: "pearsonr tv vox = Inr r"
      and rest: "sources_loop pearsonr resample_img fs tv m1 (acc @ [r]) rest = Inr (m', cs)"
    by (auto split: sum.splits prod.splits)
  from ft assms(1) have m1: "m1 = m" and tr: "transform resample_img m img = Inr vox"
    by (simp_all add: fit_transform_Inr)
  from Cons.IH [of "acc @ [r]"] rest m1
  have tk: "take (Suc (length acc)) cs = acc @ [r]"
    and more: "\<forall>i<length rest. \<exists>img vox. check_niimg fs (rest ! i) = Inr img
              \<and> transform resample_img m img = Inr vox
              \<and> pearsonr tv vox = Inr (cs ! (Suc (length acc) + i))"
    by auto
  from sources_loop_length [OF rest] have len: "length acc < length cs" by simp
  from tk have "take (length acc) (take (Suc (length acc)) cs) = take (length acc) (acc @ [r])"
    by simp
  then have tk0: "take (length acc) cs = acc" by (simp add: min_def)
  from tk len have "cs ! length acc = (acc @ [r]) ! length acc"
    by (metis lessI nth_take)
  then have here: "cs ! length acc = r" by simp
  have "\<exists>img vox. check_niimg fs ((src # rest) ! i) = Inr img
              \<and> transform resample_img m img = Inr vox
              \<and> pearsonr tv vox = Inr (cs ! (length acc + i))"
    if "i < length (src # rest)" for i
  proof (cases i)
    case 0
    with ld tr pr here show ?thesis by simp
  next
    case (Suc k)
    with that more show ?thesis by simp
  qed
  with tk0 show ?case by blast
qed

lemma compute_correlations_length:
  assumes "compute_correlations pearsonr resample_img fs inputs = Inr cs"
  shows "length cs = length (sources inputs)"
proof -
  from assms obtain tv m m'
    where "sources_loop pearsonr resample_img fs tv m [] (sources inputs) = Inr (m', cs)"
    by (auto simp: compute_correlations_def Let_def split: sum.splits prod.splits if_splits)
  from sources_loop_length [OF this] show ?thesis by simp
qed

lemma compute_correlations_nonempty:
  assumes "compute_correlations pearsonr resample_img fs inputs = Inr cs"
  shows "cs \<noteq> []"
proof -
  from assms have "sources inputs \<noteq> []"
    by (auto simp: compute_correlations_def Let_def split: sum.splits prod.splits if_splits)
  with compute_correlations_length [OF assms] show ?thesis by auto
qed

lemma compute_correlations_entry:
  assumes "compute_correlations pearsonr resample_img fs inputs = Inr cs"
    and "i < length (sources inputs)"
  shows "candidate_score pearsonr resample_img fs (target inputs) (sources inputs ! i)
           = Inr (cs ! i)"
proof -
  from assms(1) obtain t m tv m'
    where ld: "nib_load fs (target inputs) = Inr t"
      and ft: "fit_transform resample_img (new_NiftiMasker (binarize_img t)) t = Inr (m, tv)"
      and lp: "sources_loop pearsonr resample_img fs tv m [] (sources inputs) = Inr (m', cs)"
    by (auto simp: compute_correlations_def Let_def split: sum.splits prod.splits if_splits)
  from ft have m: "m = fit (new_NiftiMasker (binarize_img t)) t"
    and tt: "transform resample_img m t = Inr tv"
    by (simp_all add: fit_transform_Inr)
  have fixed: "fit m img = m" for img by (simp add: m fit_fit)
  from sources_loop_scores [of m, OF fixed lp] assms(2)
  obtain img vox where "check_niimg fs (sources inputs ! i) = Inr img"
    and "transform resample_img m img = Inr vox" and "pearsonr tv vox = Inr (cs ! i)"
    by auto
  with ld tt m show ?thesis by (simp add: candidate_score_def Let_def)
qed

section \<open>An all-zero target has an empty mask\<close>

lemma ravel_map3: "ravel (map3 f a) = map f (ravel a)"
  by (simp add: ravel_def map3_def map_concat)

lemma remdups_constant: "xs \<noteq> [] \<Longrightarrow> \<forall>v\<in>set xs. v = c \<Longrightarrow> remdups xs = [c]"
proof (induction xs)
  case Nil
  then show ?case by simp
next
  case (Cons x xs)
  then show ?case by (cases xs) auto
qed

lemma load_mask_img_all_zero:
  assumes "ravel (dataobj t) \<noteq> []" and "\<forall>v\<in>set (ravel (dataobj t)). v = 0"
  shows "load_mask_img (binarize_img t) =
           Inl (ValueError ''The mask is invalid as it is empty'')"
proof -
  have "remdups (ravel (dataobj (binarize_img t))) = [0]"
    using assms by (intro remdups_constant) (auto simp: binarize_img_def ravel_map3)
  then show ?thesis by (simp add: load_mask_img_def)
qed

lemma compute_correlations_all_zero:
  assumes "nib_load fs (target inputs) = Inr t"
    and "ravel (dataobj t) \<noteq> []" and "\<forall>v\<in>set (ravel (dataobj t)). v = 0"
  shows "compute_correlations pearsonr resample_img fs inputs =
           Inl (ValueError ''The mask is invalid as it is empty'')"
  using assms(1) load_mask_img_all_zero [OF assms(2,3)]
  by (simp add: compute_correlations_def fit_transform_def fit_def transform_def
      new_NiftiMasker_def Let_def)


section \<open>C1: the selected index has the maximal score\<close>

text \<open>
  Claim C1. Whenever the scores of the candidates have been computed and at least one of
  them is not nan, \<open>_run_interface\<close> returns: its \<open>source_index\<close> holds an index \<open>i\<close> of
  the score vector (bare or in a list, after \<open>output_list\<close>) with
  \<open>score_vector[i] >= score_vector[j]\<close> for every \<open>j\<close> whose score is not nan.
\<close>

theorem select_best_is_maximum:
  assumes "compute_correlations pearsonr resample_img fs inputs = Inr cs"
    and "j0 < length cs" and "\<not> isnan (cs ! j0)"
  shows "\<exists>i. snd (run_interface pearsonr resample_img fs cwd inputs) =
               Inr \<lparr>source_index = (if output_list inputs then IndexList [i] else IndexInt i),
                    correlations = path_join cwd ''corrs.csv''\<rparr>
           \<and> i < length cs
           \<and> (\<forall>j<length cs. \<not> isnan (cs ! j) \<longrightarrow> score_ge (cs ! i) (cs ! j))"
proof -
  from assms(2,3) have "\<not> list_all isnan cs" by (rule not_all_nan)
  then obtain i where i: "nanargmax cs = Inr i" using nanargmax_total by blast
  from run_interface_selected [OF assms(1) i] nanargmax_first_max [OF i]
  show ?thesis by auto
qed

theorem select_best_is_maximum_witness:
  "compute_correlations pearsonr_exact no_resample demo_fs
     \<lparr>target = ''target.nii.gz'',
      sources = [''flip.nii.gz'', ''same.nii.gz'', ''flat.nii.gz'', ''same.nii.gz''],
      output_list = False\<rparr> = Inr [R (- 1), R 1, NaN, R 1]
   \<and> \<not> isnan ([R (- 1), R 1, NaN, R 1] ! 0)
   \<and> (\<exists>i. snd (run_interface pearsonr_exact no_resample demo_fs ''/work''
                \<lparr>target = ''target.nii.gz'',
                 sources = [''flip.nii.gz'', ''same.nii.gz'', ''flat.nii.gz'', ''same.nii.gz''],
                 output_list = False\<rparr>) =
              Inr \<lparr>source_index = IndexInt i, correlations = ''/work/corrs.csv''\<rparr>
          \<and> i < length [R (- 1), R 1, NaN, R 1]
          \<and> (\<forall>j<length [R (- 1), R 1, NaN, R 1]. \<not> isnan ([R (- 1), R 1, NaN, R 1] ! j)
                \<longrightarrow> score_ge ([R (- 1), R 1, NaN, R 1] ! i) ([R (- 1), R 1, NaN, R 1] ! j)))"
proof -
  have nn: "\<not> isnan ([R (- 1), R 1, NaN, R 1] ! 0)" by (simp add: isnan_def)
  from select_best_is_maximum [where cwd = "''/work''", OF demo_mixed [of False] _ nn]
    demo_mixed [of False] nn
  show ?thesis by (simp add: path_join_def)
qed

section \<open>C2: every score is nan\<close>

text \<open>
  Claim C2 says that, when every score is nan, the error is raised after the score
  vector has been written. Counterexample: two constant candidates against the
  two-valued target give the scores nan and nan; the run raises, and the score file
  does not exist afterwards.
\<close>

theorem all_nan_score_file_counterexample:
  "compute_correlations pearsonr_exact no_resample demo_fs
     \<lparr>target = ''target.nii.gz'', sources = [''flat.nii.gz'', ''flat.nii.gz''],
      output_list = True\<rparr> = Inr [NaN, NaN]
   \<and> snd (run_interface pearsonr_exact no_resample demo_fs ''/work''
            \<lparr>target = ''target.nii.gz'', sources = [''flat.nii.gz'', ''flat.nii.gz''],
             output_list = True\<rparr>) = Inl (ValueError ''All-NaN slice encountered'')
   \<and> fst (run_interface pearsonr_exact no_resample demo_fs ''/work''
            \<lparr>target = ''target.nii.gz'', sources = [''flat.nii.gz'', ''flat.nii.gz''],
             output_list = True\<rparr>) ''/work/corrs.csv'' = None"
  by (simp add: run_interface_def demo_flat nanargmax_def isnan_def demo_fs_no_scores)

text \<open>
  Claim C2, amended. When every score is nan, \<open>nanargmax\<close> raises its \<open>ValueError\<close>
  and the run stops there, before \<open>savetxt\<close>: the exception is the outcome and the file
  system is what it was before the call, so no score file is written by this run.
\<close>

theorem all_nan_raises_before_persisting:
  assumes "compute_correlations pearsonr resample_img fs inputs = Inr cs"
    and "list_all isnan cs"
  shows "run_interface pearsonr resample_img fs cwd inputs =
           (fs, Inl (ValueError ''All-NaN slice encountered''))"
  using assms compute_correlations_nonempty [OF assms(1)]
  by (simp add: run_interface_def nanargmax_def)

theorem all_nan_raises_before_persisting_witness:
  "compute_correlations pearsonr_exact no_resample demo_fs
     \<lparr>target = ''target.nii.gz'', sources = [''flat.nii.gz'', ''flat.nii.gz''],
      output_list = False\<rparr> = Inr [NaN, NaN]
   \<and> list_all isnan [NaN, NaN]
   \<and> run_interface pearsonr_exact no_resample demo_fs ''/tmp''
        \<lparr>target = ''target.nii.gz'', sources = [''flat.nii.gz'', ''flat.nii.gz''],
         output_list = False\<rparr> = (demo_fs, Inl (ValueError ''All-NaN slice encountered''))"
proof -
  have an: "list_all isnan [NaN, NaN]" by (simp add: isnan_def)
  from all_nan_raises_before_persisting [where cwd = "''/tmp''", OF demo_flat [of False] an]
    demo_flat [of False] an
  show ?thesis by simp
qed


section \<open>C3: one score per candidate\<close>

text \<open>
  Claim C3. Whenever the loop over the candidates has produced the score vector, it has
  exactly one entry per candidate, \<open>len(score_vector) == len(candidates)\<close>, whether the
  selection then fails (the run ends with the exception of \<open>nanargmax\<close>) or succeeds
  (the vector is what the score file holds).
\<close>

theorem score_vector_length:
  assumes "compute_correlations pearsonr resample_img fs inputs = Inr cs"
  shows "length cs = length (sources inputs)
       \<and> (case nanargmax cs of
            Inl e \<Rightarrow> run_interface pearsonr resample_img fs cwd inputs = (fs, Inl e)
          | Inr i \<Rightarrow> fst (run_interface pearsonr resample_img fs cwd inputs)
                       (path_join cwd ''corrs.csv'') = Some (Text cs))"
  using compute_correlations_length [OF assms]
  by (simp add: run_interface_def assms savetxt_def Let_def split: sum.splits)

theorem score_vector_length_witness:
  "compute_correlations pearsonr_exact no_resample demo_fs
     \<lparr>target = ''target.nii.gz'', sources = [''flat.nii.gz'', ''flat.nii.gz''],
      output_list = True\<rparr> = Inr [NaN, NaN]
   \<and> length [NaN, NaN] = length [''flat.nii.gz'', ''flat.nii.gz'']
   \<and> nanargmax [NaN, NaN] = Inl (ValueError ''All-NaN slice encountered'')
   \<and> run_interface pearsonr_exact no_resample demo_fs ''/work''
        \<lparr>target = ''target.nii.gz'', sources = [''flat.nii.gz'', ''flat.nii.gz''],
         output_list = True\<rparr> = (demo_fs, Inl (ValueError ''All-NaN slice encountered''))"
proof -
  have sel: "nanargmax [NaN, NaN] = Inl (ValueError ''All-NaN slice encountered'')"
    by (simp add: nanargmax_def isnan_def)
  from score_vector_length [where cwd = "''/work''", OF demo_flat [of True]] sel
    demo_flat [of True]
  show ?thesis by simp
qed

section \<open>C4: an all-zero target\<close>

text \<open>
  Claim C4. When the target volume is all zero (it has voxels, and none is non-zero), the
  mask derived from it is empty and the run raises the masker's empty-mask error when it
  extracts the target's voxels, before the loop: no score vector and no index is
  produced, the file system is unchanged, and the outcome is the same for every
  candidate list and every scoring function, as no candidate is loaded or scored.
\<close>

theorem empty_mask_raises_before_scoring:
  assumes "nib_load fs (target inputs) = Inr t"
    and "ravel (dataobj t) \<noteq> []" and "\<forall>v\<in>set (ravel (dataobj t)). v = 0"
  shows "run_interface pearsonr resample_img fs cwd inputs =
           (fs, Inl (ValueError
              ''The mask is invalid as it is empty''))
       \<and> compute_correlations pearsonr resample_img fs inputs =
           Inl (ValueError ''The mask is invalid as it is empty'')
       \<and> (\<forall>srcs pearsonr'. run_interface pearsonr' resample_img fs cwd
              (inputs\<lparr>sources := srcs\<rparr>) =
           (fs, Inl (ValueError
              ''The mask is invalid as it is empty'')))"
proof -
  have "compute_correlations p resample_img fs (inputs\<lparr>sources := srcs\<rparr>) =
          Inl (ValueError ''The mask is invalid as it is empty'')"
    for p srcs
    using assms by (intro compute_correlations_all_zero [of _ _ t]) simp_all
  moreover have "compute_correlations pearsonr resample_img fs inputs =
          Inl (ValueError ''The mask is invalid as it is empty'')"
    using assms by (rule compute_correlations_all_zero)
  ultimately show ?thesis by (simp add: run_interface_def)
qed

theorem empty_mask_raises_before_scoring_witness:
  "nib_load demo_fs ''zeros.nii.gz'' = Inr \<lparr>affine = (), dataobj = [[[0, 0]]]\<rparr>
   \<and> ravel [[[0, 0 :: real]]] \<noteq> []
   \<and> set (ravel [[[0, 0 :: real]]]) = {0}
   \<and> run_interface pearsonr_exact no_resample demo_fs ''/work''
        \<lparr>target = ''zeros.nii.gz'', sources = [''missing.nii.gz'', ''same.nii.gz''],
         output_list = True\<rparr> =
       (demo_fs, Inl (ValueError
          ''The mask is invalid as it is empty''))"
proof -
  have a: "nib_load demo_fs (target \<lparr>target = ''zeros.nii.gz'',
        sources = [''missing.nii.gz'', ''same.nii.gz''], output_list = True\<rparr>) =
        Inr \<lparr>affine = (), dataobj = [[[0, 0]]]\<rparr>"
    by (simp add: demo_load)
  have b: "ravel (dataobj \<lparr>affine = (), dataobj = [[[0, 0 :: real]]]\<rparr>) \<noteq> []"
    by (simp add: ravel_def)
  have c: "\<forall>v\<in>set (ravel (dataobj \<lparr>affine = (), dataobj = [[[0, 0 :: real]]]\<rparr>)). v = 0"
    by (simp add: ravel_def)
  from empty_mask_raises_before_scoring [where cwd = "''/work''" and pearsonr = pearsonr_exact
      and resample_img = no_resample, OF a b c] a b c
  show ?thesis by (simp add: ravel_def)
qed

section \<open>C5: ties go to the first candidate\<close>

text \<open>
  Claim C5. When several candidates attain the maximal score that is not nan, the
  returned index is the smallest of them: the score at the returned index is maximal and
  every earlier score is nan or strictly smaller. For two identical candidates that both
  correlate perfectly with the target the index is 0.
\<close>

theorem select_best_first_occurrence:
  assumes "compute_correlations pearsonr resample_img fs inputs = Inr cs"
    and "j0 < length cs" and "\<not> isnan (cs ! j0)"
  shows "\<exists>i. snd (run_interface pearsonr resample_img fs cwd inputs) =
               Inr \<lparr>source_index = (if output_list inputs then IndexList [i] else IndexInt i),
                    correlations = path_join cwd ''corrs.csv''\<rparr>
           \<and> i < length cs
           \<and> (\<forall>j<length cs. \<not> isnan (cs ! j) \<longrightarrow> score_ge (cs ! i) (cs ! j))
           \<and> (\<forall>j<i. isnan (cs ! j) \<or> score_lt (cs ! j) (cs ! i))"
proof -
  from assms(2,3) have "\<not> list_all isnan cs" by (rule not_all_nan)
  then obtain i where i: "nanargmax cs = Inr i" using nanargmax_total by blast
  from run_interface_selected [OF assms(1) i] nanargmax_first_max [OF i]
  show ?thesis by auto
qed

theorem select_best_first_occurrence_witness:
  "compute_correlations pearsonr_exact no_resample demo_fs
     \<lparr>target = ''target.nii.gz'', sources = [''same.nii.gz'', ''same.nii.gz''],
      output_list = True\<rparr> = Inr [R 1, R 1]
   \<and> \<not> isnan ([R 1, R 1] ! 1)
   \<and> snd (run_interface pearsonr_exact no_resample demo_fs ''/work''
            \<lparr>target = ''target.nii.gz'', sources = [''same.nii.gz'', ''same.nii.gz''],
             output_list = True\<rparr>) =
       Inr \<lparr>source_index = IndexList [0], correlations = ''/work/corrs.csv''\<rparr>"
proof -
  have nn: "\<not> isnan ([R 1, R 1] ! 1)" by (simp add: isnan_def)
  from select_best_first_occurrence [where cwd = "''/work''", OF demo_twins [of True] _ nn]
  obtain i where run: "snd (run_interface pearsonr_exact no_resample demo_fs ''/work''
            \<lparr>target = ''target.nii.gz'', sources = [''same.nii.gz'', ''same.nii.gz''],
             output_list = True\<rparr>) =
       Inr \<lparr>source_index = IndexList [i], correlations = path_join ''/work'' ''corrs.csv''\<rparr>"
    and first: "\<forall>j<i. isnan ([R 1, R 1] ! j) \<or> score_lt ([R 1, R 1] ! j) ([R 1, R 1] ! i)"
    and i: "i < 2"
    by auto
  have "i = 0"
  proof (rule ccontr)
    assume "i \<noteq> 0"
    with i have "i = 1" by simp
    with first have "isnan ([R 1, R 1] ! 0) \<or> score_lt ([R 1, R 1] ! 0) ([R 1, R 1] ! 1)"
      by blast
    then show False by (simp add: isnan_def)
  qed
  with run demo_twins nn show ?thesis by (simp add: path_join_def)
qed

section \<open>C7: the two forms of the index\<close>

lemma run_refuses_list:
  assumes "output_list inputs"
  shows "snd (SelectCoregistration_run pearsonr resample_img fs cwd inputs) \<noteq> Inr outs"
  using assms
  by (auto simp: SelectCoregistration_run_def run_interface_def aggregate_outputs_def Let_def
      split: sum.splits prod.splits)

text \<open>
  Claim C7 says that a successful invocation with \<open>output_list\<close> true returns the
  one-element list of the selected index. The code does put that list into \<open>_results\<close>,
  but its output spec declares \<open>source_index\<close> an \<open>Int\<close>: for the target and the two
  candidates below, \<open>_run_interface\<close> selects index 1 and stores the list of 1, the
  score file is written, and the run then raises \<open>TraitError\<close> instead of returning.
  With \<open>output_list\<close> false the same call returns the bare index 1.
\<close>

theorem output_list_true_raises_TraitError:
  "snd (run_interface pearsonr_exact no_resample demo_fs ''/work''
          \<lparr>target = ''target.nii.gz'', sources = [''flip.nii.gz'', ''same.nii.gz''],
           output_list = True\<rparr>)
     = Inr \<lparr>source_index = IndexList [1], correlations = ''/work/corrs.csv''\<rparr>
   \<and> SelectCoregistration_run pearsonr_exact no_resample demo_fs ''/work''
          \<lparr>target = ''target.nii.gz'', sources = [''flip.nii.gz'', ''same.nii.gz''],
           output_list = True\<rparr>
     = (savetxt demo_fs ''/work/corrs.csv'' [R (- 1), R 1], Inl TraitError)
   \<and> SelectCoregistration_run pearsonr_exact no_resample demo_fs ''/work''
          \<lparr>target = ''target.nii.gz'', sources = [''flip.nii.gz'', ''same.nii.gz''],
           output_list = False\<rparr>
     = (savetxt demo_fs ''/work/corrs.csv'' [R (- 1), R 1],
        Inr \<lparr>out_source_index = 1, out_correlations = ''/work/corrs.csv''\<rparr>)"
proof -
  have cs: "compute_correlations pearsonr_exact no_resample demo_fs
     \<lparr>target = ''target.nii.gz'', sources = [''flip.nii.gz'', ''same.nii.gz''],
      output_list = b\<rparr> = Inr [R (- 1), R 1]" for b
    by (simp add: demo_eval)
  have sel: "nanargmax [R (- 1), R 1] = Inr 1"
    by (simp add: nanargmax_def argmax_def isnan_def replace_nan_def)
  show ?thesis
    by (simp add: SelectCoregistration_run_def aggregate_outputs_def
        run_interface_selected [OF cs sel] path_join_def)
qed

section \<open>C8: each score depends on its own candidate only\<close>

text \<open>
  Claim C8. The entry \<open>i\<close> of the score vector is a function of the target and of
  candidate \<open>i\<close> alone: two runs on the same target, whose candidate lists may differ
  anywhere else, in content, order and length, give the same score to a candidate that
  they share, at whatever positions it stands; that score is the one obtained by fitting
  the mask once on the target and scoring the candidate on its own.
\<close>

theorem score_depends_only_on_its_candidate:
  assumes "compute_correlations pearsonr resample_img fs inputs = Inr cs"
    and "compute_correlations pearsonr resample_img fs inputs' = Inr cs'"
    and "target inputs' = target inputs"
    and "i < length (sources inputs)" and "k < length (sources inputs')"
    and "sources inputs ! i = sources inputs' ! k"
  shows "cs ! i = cs' ! k
       \<and> candidate_score pearsonr resample_img fs (target inputs) (sources inputs ! i)
           = Inr (cs ! i)"
  using compute_correlations_entry [OF assms(1,4)] compute_correlations_entry [OF assms(2,5)]
    assms(3,6)
  by simp

theorem score_depends_only_on_its_candidate_witness:
  "compute_correlations pearsonr_exact no_resample demo_fs
     \<lparr>target = ''target.nii.gz'',
      sources = [''flip.nii.gz'', ''same.nii.gz'', ''flat.nii.gz'', ''same.nii.gz''],
      output_list = True\<rparr> = Inr [R (- 1), R 1, NaN, R 1]
   \<and> compute_correlations pearsonr_exact no_resample demo_fs
     \<lparr>target = ''target.nii.gz'', sources = [''flat.nii.gz'', ''flat.nii.gz''],
      output_list = True\<rparr> = Inr [NaN, NaN]
   \<and> [''flip.nii.gz'', ''same.nii.gz'', ''flat.nii.gz'', ''same.nii.gz''] ! 2
       = [''flat.nii.gz'', ''flat.nii.gz''] ! 0
   \<and> [R (- 1), R 1, NaN, R 1] ! 2 = [NaN, NaN] ! 0
   \<and> candidate_score pearsonr_exact no_resample demo_fs ''target.nii.gz'' ''flat.nii.gz''
       = Inr NaN"
proof -
  from score_depends_only_on_its_candidate [OF demo_mixed [of True] demo_flat [of True],
      of 2 0] demo_mixed [of True] demo_flat [of True]
  show ?thesis by simp
qed


section \<open>C9: check_params on a dictionary\<close>

text \<open>
  Claim C9. For a dictionary \<open>params\<close> and a set \<open>required\<close>, \<open>check_params\<close> raises
  exactly when \<open>required\<close> is not a subset of the keys of \<open>params\<close>, and what it raises
  then is the \<open>KeyError\<close>; when \<open>required\<close> is a subset it returns \<open>params\<close> itself. No
  file is read for a dictionary.
\<close>

theorem check_params_dict:
  "((\<exists>e. check_params json_load (ParamsDict d) required = Inl e) \<longleftrightarrow> \<not> required \<subseteq> dom d)
   \<and> (\<not> required \<subseteq> dom d \<longrightarrow>
        check_params json_load (ParamsDict d) required
          = Inl (KeyError ''Parameters must have keys''))
   \<and> (required \<subseteq> dom d \<longrightarrow> check_params json_load (ParamsDict d) required = Inr d)"
  by (simp add: check_params_def)

theorem check_params_dict_witness:
  "{''coregistration_wf''} \<subseteq> dom [''coregistration_wf'' \<mapsto> (1::nat), ''nmt_wf'' \<mapsto> 2]
   \<and> check_params (\<lambda>p. Inl FileNotFoundError)
        (ParamsDict [''coregistration_wf'' \<mapsto> (1::nat), ''nmt_wf'' \<mapsto> 2])
        {''coregistration_wf''}
       = Inr [''coregistration_wf'' \<mapsto> 1, ''nmt_wf'' \<mapsto> 2]
   \<and> \<not> {''coregistration_wf''} \<subseteq> dom [''nmt_wf'' \<mapsto> (2::nat)]
   \<and> check_params (\<lambda>p. Inl FileNotFoundError) (ParamsDict [''nmt_wf'' \<mapsto> (2::nat)])
        {''coregistration_wf''}
       = Inl (KeyError ''Parameters must have keys'')"
proof -
  have a: "{''coregistration_wf''} \<subseteq> dom [''coregistration_wf'' \<mapsto> (1::nat), ''nmt_wf'' \<mapsto> 2]"
    by simp
  have b: "\<not> {''coregistration_wf''} \<subseteq> dom [''nmt_wf'' \<mapsto> (2::nat)]"
    by simp
  from check_params_dict [of "\<lambda>p. Inl FileNotFoundError"
      "[''coregistration_wf'' \<mapsto> (1::nat), ''nmt_wf'' \<mapsto> 2]" "{''coregistration_wf''}"]
    check_params_dict [of "\<lambda>p. Inl FileNotFoundError" "[''nmt_wf'' \<mapsto> (2::nat)]"
      "{''coregistration_wf''}"] a b
  show ?thesis by blast
qed

section \<open>C10: the two hemisphere masks\<close>

lemma HemisphereMask_run:
  assumes "nib_load fs brain_mask = Inr mi"
  shows "HemisphereMask_run_interface f fs cwd brain_mask =
    (fs(path_join cwd (str_replace (basename brain_mask) ''.nii.gz'' ''_right.nii.gz'')
          \<mapsto> Nifti \<lparr>affine = affine mi,
                     dataobj = map3 f (mul_upto 64 (Float 0) (dataobj mi))\<rparr>,
        path_join cwd (str_replace (basename brain_mask) ''.nii.gz'' ''_left.nii.gz'')
          \<mapsto> Nifti \<lparr>affine = affine mi,
                     dataobj = map3 f (mul_from 64 (Float 0) (dataobj mi))\<rparr>),
     Inr [''right_mask'' \<mapsto>
            path_join cwd (str_replace (basename brain_mask) ''.nii.gz'' ''_right.nii.gz''),
          ''left_mask'' \<mapsto>
            path_join cwd (str_replace (basename brain_mask) ''.nii.gz'' ''_left.nii.gz'')])"
  using assms by (simp add: HemisphereMask_run_interface_def write_mask_def Let_def)

lemma mask_fs_load:
  "nib_load mask_fs ''/nmt/brainmask.nii.gz'' = Inr brain65"
  "nib_load mask_fs ''/nmt/brainmask.nii'' = Inr brain65"
  by (simp_all add: nib_load_def mask_fs_def)

lemma basename_examples:
  "basename ''/nmt/brainmask.nii.gz'' = ''brainmask.nii.gz''"
  "basename ''/nmt/brainmask.nii'' = ''brainmask.nii''"
  by (simp_all add: basename_def)

lemma brain65_fields: "affine brain65 = ()" "dataobj brain65 = replicate 65 [[Float 1]]"
  by (simp_all add: brain65_def)

lemma brain65_halves:
  "map3 exact_cast (mul_upto 64 (Float 0) (replicate 65 [[Float 1]]))
     = replicate 64 [[Float 0]] @ [[[Float 1]]]"
  "map3 exact_cast (mul_from 64 (Float 0) (replicate 65 [[Float 1]]))
     = replicate 64 [[Float 1]] @ [[[Float 0]]]"
  by (simp_all add: mul_upto_def mul_from_def map3_def exact_cast_def)

text \<open>
  A voxel that is infinite or nan is not set to zero by the multiplication: it becomes
  nan.
\<close>

lemma mul_upto_not_finite:
  "mul_upto 64 (Float 0) [[[PlusInf, NotANumber, Float 3]]]
     = [[[NotANumber, NotANumber, Float 0]]]"
  by (simp add: mul_upto_def map3_def inf_of_sign_def)

text \<open>
  Claim C10 says that, for every input, the right mask is the input with the slabs of
  index below 64 set to zero and the left mask the input with the slabs from 64 on set to
  zero. The code does not deliver that for an input whose name has no \<open>.nii.gz\<close>. For
  the mask of 65 slabs stored as \<open>brainmask.nii\<close> there is nothing to replace in the name,
  both outputs are named \<open>/work/brainmask.nii\<close>, the left mask is written last, and the
  one file that \<open>right_mask\<close> and \<open>left_mask\<close> name holds the left mask, whose slab 0 is
  1 and not 0. For the same mask stored as \<open>brainmask.nii.gz\<close> the two outputs are two
  files, which hold the right and the left mask.
\<close>

theorem hemisphere_mask_name_collision:
  "HemisphereMask_run_interface exact_cast mask_fs ''/work'' ''/nmt/brainmask.nii'' =
     (mask_fs(''/work/brainmask.nii'' \<mapsto> Nifti left65),
      Inr [''right_mask'' \<mapsto> ''/work/brainmask.nii'', ''left_mask'' \<mapsto> ''/work/brainmask.nii''])
   \<and> dataobj brain65 ! 0 = [[Float 1]]
   \<and> dataobj left65 ! 0 = [[Float 1]]
   \<and> dataobj right65 ! 0 = [[Float 0]]
   \<and> HemisphereMask_run_interface exact_cast mask_fs ''/work'' ''/nmt/brainmask.nii.gz'' =
     (mask_fs(''/work/brainmask_right.nii.gz'' \<mapsto> Nifti right65,
              ''/work/brainmask_left.nii.gz'' \<mapsto> Nifti left65),
      Inr [''right_mask'' \<mapsto> ''/work/brainmask_right.nii.gz'',
           ''left_mask'' \<mapsto> ''/work/brainmask_left.nii.gz''])"
  by (simp add: HemisphereMask_run [OF mask_fs_load(2)] HemisphereMask_run [OF mask_fs_load(1)]
      basename_examples brain65_halves str_replace_def path_join_def brain65_fields
      left65_def right65_def nth_append)

end
